theory Spec2Isabelle
  imports Main
begin

section \<open>JavaScript values\<close>

text \<open>
  The logger inspects the shape of whatever was thrown at run time (\<open>typeof\<close>, optional
  member reads, truthiness), so the thrown value is modelled as an untyped JavaScript value.
  An object is the finite list of the properties visible on it, in insertion order. A
  function is a method called without arguments: its name and the completion of a call,
  \<open>Inr v\<close> when it returns \<open>v\<close> and \<open>Inl x\<close> when it throws \<open>x\<close>. Numbers are the
  integers (status codes); \<open>NaN\<close> and fractions do not occur in the code modelled.
\<close>

datatype jsval =
    JUndefined
  | JNull
  | JBoolean bool
  | JNumber int
  | JString string
  | JObject "(string \<times> jsval) list"
  | JFunction string "jsval + jsval"

text \<open>A computation either throws a value (\<open>Inl\<close>) or completes with a result (\<open>Inr\<close>).\<close>

type_synonym 'a completion = "jsval + 'a"

definition and_then :: "'a completion \<Rightarrow> ('a \<Rightarrow> 'b completion) \<Rightarrow> 'b completion" where
  "and_then m f = (case m of Inl x \<Rightarrow> Inl x | Inr v \<Rightarrow> f v)"

definition TypeError :: "string \<Rightarrow> jsval" where
  "TypeError msg = JObject [(''name'', JString ''TypeError''), (''message'', JString msg)]"

fun typeof :: "jsval \<Rightarrow> string" where
  "typeof JUndefined = ''undefined''"
| "typeof JNull = ''object''"
| "typeof (JBoolean b) = ''boolean''"
| "typeof (JNumber n) = ''number''"
| "typeof (JString s) = ''string''"
| "typeof (JObject ps) = ''object''"
| "typeof (JFunction n r) = ''function''"

text \<open>\<open>Boolean(v)\<close>, the predicate handed to \<open>find\<close>, \<open>some\<close> and \<open>every\<close>.\<close>

fun Boolean :: "jsval \<Rightarrow> bool" where
  "Boolean JUndefined = False"
| "Boolean JNull = False"
| "Boolean (JBoolean b) = b"
| "Boolean (JNumber n) = (n \<noteq> 0)"
| "Boolean (JString s) = (s \<noteq> [])"
| "Boolean (JObject ps) = True"
| "Boolean (JFunction n r) = True"

text \<open>\<open>[a, b, ...].find(Boolean)\<close>: the first truthy element, \<open>undefined\<close> when none is.\<close>

definition find_Boolean :: "jsval list \<Rightarrow> jsval" where
  "find_Boolean xs = (case List.find Boolean xs of Some v \<Rightarrow> v | None \<Rightarrow> JUndefined)"

text \<open>
  Member reads. \<open>opt_member v k\<close> is \<open>v?.k\<close>; \<open>get_member v k\<close> is \<open>v.k\<close>, which throws
  on \<open>null\<close> and \<open>undefined\<close>. The code reads the fixed keys \<open>name\<close>, \<open>message\<close>,
  \<open>statusCode\<close>, \<open>stack\<close>, \<open>traceid\<close>, \<open>status\<close>, \<open>context\<close>, \<open>getResponse\<close>,
  \<open>getStatus\<close> and the request's fields; none of them is defined on the prototype of a
  primitive or of a plain object, so a key that is not listed reads as \<open>undefined\<close>.
\<close>

fun opt_member :: "jsval \<Rightarrow> string \<Rightarrow> jsval" where
  "opt_member (JObject ps) k = (case map_of ps k of Some v \<Rightarrow> v | None \<Rightarrow> JUndefined)"
| "opt_member (JFunction n r) k = (if k = ''name'' then JString n else JUndefined)"
| "opt_member v k = JUndefined"

definition nullish :: "jsval \<Rightarrow> bool" where
  "nullish v = (v = JUndefined \<or> v = JNull)"

definition get_member :: "jsval \<Rightarrow> string \<Rightarrow> jsval completion" where
  "get_member v k =
     (if nullish v
      then Inl (TypeError (''Cannot read properties of '' @
                (if v = JNull then ''null'' else ''undefined'') @ '' (reading '' @ k @ '')''))
      else Inr (opt_member v k))"

text \<open>
  \<open>v.k()\<close>: the member is read, then called; calling what is not a function throws.
\<close>

definition call_method :: "jsval \<Rightarrow> string \<Rightarrow> jsval completion" where
  "call_method v k =
     and_then (get_member v k) (\<lambda>f.
       case f of
         JFunction n r \<Rightarrow> r
       | _ \<Rightarrow> Inl (TypeError (k @ '' is not a function'')))"

subsection \<open>Decimal numerals\<close>

text \<open>The digit of a number below ten.\<close>

definition digit_char :: "nat \<Rightarrow> char" where
  "digit_char d = ''0123456789'' ! d"

fun show_nat :: "nat \<Rightarrow> string" where
  "show_nat n = (if n < 10 then [digit_char n] else show_nat (n div 10) @ [digit_char (n mod 10)])"

declare show_nat.simps [simp del]

definition show_int :: "int \<Rightarrow> string" where
  "show_int i = (if i < 0 then CHR ''-'' # show_nat (nat (- i)) else show_nat (nat i))"

text \<open>\<open>String.prototype.padStart(n, '0')\<close>.\<close>

definition padStart :: "nat \<Rightarrow> string \<Rightarrow> string" where
  "padStart n s = replicate (n - length s) CHR ''0'' @ s"

subsection \<open>Conversions\<close>

text \<open>
  \<open>OrdinaryToPrimitive\<close>: the methods named in \<open>order\<close> are tried in turn; one that is
  callable and returns a primitive decides. A plain object without a method of its own
  inherits \<open>Object.prototype.valueOf\<close>, which returns the object itself (and is passed
  over), and \<open>Object.prototype.toString\<close>, which returns \<open>[object Object]\<close>.
\<close>

definition is_primitive :: "jsval \<Rightarrow> bool" where
  "is_primitive v = (case v of JObject ps \<Rightarrow> False | JFunction n r \<Rightarrow> False | _ \<Rightarrow> True)"

fun ordinary_to_primitive :: "(string \<times> jsval) list \<Rightarrow> string list \<Rightarrow> jsval completion" where
  "ordinary_to_primitive ps [] = Inl (TypeError ''Cannot convert object to primitive value'')"
| "ordinary_to_primitive ps (m # ms) =
     (case map_of ps m of
        None \<Rightarrow> (if m = ''toString'' then Inr (JString ''[object Object]'') else ordinary_to_primitive ps ms)
      | Some (JFunction n r) \<Rightarrow>
          (case r of
             Inl x \<Rightarrow> Inl x
           | Inr v \<Rightarrow> if is_primitive v then Inr v else ordinary_to_primitive ps ms)
      | Some v \<Rightarrow> ordinary_to_primitive ps ms)"

text \<open>
  \<open>ToPropertyKey\<close> and the \<open>ToString\<close> of a template literal. The text of a function
  is its source; the model writes a text that, like every function source, is not an
  identifier.
\<close>

fun primitive_to_string :: "jsval \<Rightarrow> string" where
  "primitive_to_string JUndefined = ''undefined''"
| "primitive_to_string JNull = ''null''"
| "primitive_to_string (JBoolean b) = (if b then ''true'' else ''false'')"
| "primitive_to_string (JNumber n) = show_int n"
| "primitive_to_string (JString s) = s"
| "primitive_to_string (JObject ps) = ''[object Object]''"
| "primitive_to_string (JFunction n r) = ''function '' @ n @ ''() { [native code] }''"

definition ToString :: "jsval \<Rightarrow> string completion" where
  "ToString v =
     (case v of
        JObject ps \<Rightarrow> and_then (ordinary_to_primitive ps [''toString'', ''valueOf'']) (\<lambda>p. Inr (primitive_to_string p))
      | _ \<Rightarrow> Inr (primitive_to_string v))"

text \<open>
  \<open>v == s\<close> for a string \<open>s\<close> that is not a numeric literal (the code compares with
  \<open>TypeError.name\<close>): a string is compared as it is, a number or a boolean is compared
  with the number the string denotes (\<open>NaN\<close>, so the comparison is false), \<open>null\<close> and
  \<open>undefined\<close> equal no string, an object is converted to a primitive first.
\<close>

fun primitive_loose_eq :: "jsval \<Rightarrow> string \<Rightarrow> bool" where
  "primitive_loose_eq (JString t) s = (t = s)"
| "primitive_loose_eq v s = False"

definition loose_eq :: "jsval \<Rightarrow> string \<Rightarrow> bool completion" where
  "loose_eq v s =
     (case v of
        JObject ps \<Rightarrow> and_then (ordinary_to_primitive ps [''valueOf'', ''toString'']) (\<lambda>p. Inr (primitive_loose_eq p s))
      | _ \<Rightarrow> Inr (primitive_loose_eq v s))"

subsection \<open>Object literals\<close>

text \<open>
  \<open>{ ...obj, k: v }\<close>: a key written after the spread replaces the value that was
  spread under that key and keeps its place; a new key goes last.
\<close>

fun set_prop :: "string \<Rightarrow> jsval \<Rightarrow> (string \<times> jsval) list \<Rightarrow> (string \<times> jsval) list" where
  "set_prop k v [] = [(k, v)]"
| "set_prop k v (p # ps) = (if fst p = k then (k, v) # ps else p # set_prop k v ps)"

definition assign :: "(string \<times> jsval) list \<Rightarrow> (string \<times> jsval) list \<Rightarrow> (string \<times> jsval) list" where
  "assign target props = foldl (\<lambda>acc kv. set_prop (fst kv) (snd kv) acc) target props"

text \<open>
  The properties a spread copies: those of an object, the indexed characters of a string,
  nothing for any other value.
\<close>

fun spread :: "jsval \<Rightarrow> (string \<times> jsval) list" where
  "spread (JObject ps) = ps"
| "spread (JString s) = zip (map show_nat [0..<length s]) (map (\<lambda>c. JString [c]) s)"
| "spread v = []"

text \<open>
  \<open>obj[key]\<close> on an object literal with a computed key: an own property first, then the
  members every object literal inherits from \<open>Object.prototype\<close>. Each inherited function
  is written with the completion of calling it on the literal without arguments;
  \<open>__proto__\<close> reads the prototype object itself.
\<close>

definition Object_prototype :: "(string \<times> jsval) list \<Rightarrow> (string \<times> jsval) list" where
  "Object_prototype this =
     [(''constructor'', JFunction ''Object'' (Inr (JObject []))),
      (''__defineGetter__'', JFunction ''__defineGetter__'' (Inl (TypeError ''Expecting function''))),
      (''__defineSetter__'', JFunction ''__defineSetter__'' (Inl (TypeError ''Expecting function''))),
      (''hasOwnProperty'', JFunction ''hasOwnProperty'' (Inr (JBoolean (map_of this ''undefined'' \<noteq> None)))),
      (''__lookupGetter__'', JFunction ''__lookupGetter__'' (Inr JUndefined)),
      (''__lookupSetter__'', JFunction ''__lookupSetter__'' (Inr JUndefined)),
      (''isPrototypeOf'', JFunction ''isPrototypeOf'' (Inr (JBoolean False))),
      (''propertyIsEnumerable'', JFunction ''propertyIsEnumerable'' (Inr (JBoolean (map_of this ''undefined'' \<noteq> None)))),
      (''toString'', JFunction ''toString'' (Inr (JString ''[object Object]''))),
      (''valueOf'', JFunction ''valueOf'' (Inr (JObject this))),
      (''toLocaleString'', JFunction ''toLocaleString'' (Inr (JString ''[object Object]'')))]"

definition computed_member :: "(string \<times> jsval) list \<Rightarrow> string \<Rightarrow> jsval" where
  "computed_member literal key =
     (case map_of literal key of
        Some v \<Rightarrow> v
      | None \<Rightarrow>
          if key = ''__proto__'' then JObject (Object_prototype literal)
          else (case map_of (Object_prototype literal) key of Some v \<Rightarrow> v | None \<Rightarrow> JUndefined))"

section \<open>Collaborators outside the service\<close>

subsection \<open>Dates (luxon)\<close>

text \<open>
  \<open>DateTime.fromJSDate(date).setZone(process.env.TZ)\<close> reads an instant on the wall clock
  of the configured zone; luxon takes the reading from the platform's zone database, so
  the reading is the model's input. A zone luxon does not know makes the value invalid.
\<close>

record wall_clock =
  year :: nat
  month :: nat
  day :: nat
  hour :: nat
  minute :: nat
  second :: nat

datatype DateTime = Valid wall_clock | Invalid

text \<open>
  \<open>toFormat\<close> for the tokens the two format strings of the service use (\<open>yyyy\<close>, \<open>MM\<close>,
  \<open>dd\<close>, \<open>HH\<close>, \<open>mm\<close>, \<open>ss\<close>: zero-padded numbers); the separators between them are
  copied.
\<close>

function format_tokens :: "wall_clock \<Rightarrow> string \<Rightarrow> string" where
  "format_tokens d fmt =
     (if fmt = [] then []
      else if take 4 fmt = ''yyyy'' then padStart 4 (show_nat (year d)) @ format_tokens d (drop 4 fmt)
      else if take 2 fmt = ''MM'' then padStart 2 (show_nat (month d)) @ format_tokens d (drop 2 fmt)
      else if take 2 fmt = ''dd'' then padStart 2 (show_nat (day d)) @ format_tokens d (drop 2 fmt)
      else if take 2 fmt = ''HH'' then padStart 2 (show_nat (hour d)) @ format_tokens d (drop 2 fmt)
      else if take 2 fmt = ''mm'' then padStart 2 (show_nat (minute d)) @ format_tokens d (drop 2 fmt)
      else if take 2 fmt = ''ss'' then padStart 2 (show_nat (second d)) @ format_tokens d (drop 2 fmt)
      else hd fmt # format_tokens d (tl fmt))"
  by pat_completeness auto
termination
  by (relation "measure (\<lambda>(d, fmt). length fmt)") auto

declare format_tokens.simps [simp del]

definition toFormat :: "DateTime \<Rightarrow> string \<Rightarrow> string" where
  "toFormat dt fmt = (case dt of Valid d \<Rightarrow> format_tokens d fmt | Invalid \<Rightarrow> ''Invalid DateTime'')"

subsection \<open>Exceptions (NestJS and the application's own)\<close>

text \<open>
  \<open>new InternalServerErrorException(x).getResponse()\<close> is the body NestJS builds with
  \<open>HttpException.createBody(x, 'Internal Server Error', 500)\<close>. Every release answers a
  falsy argument with the default body. For a truthy one the releases differ: the older
  ones return a plain object as it is and wrap anything else, the newer ones wrap a
  string and return anything else as it is. Both are modelled; the release is part of the
  runtime.
\<close>

datatype nest_release = ByTruthiness | ByType

definition isObject :: "jsval \<Rightarrow> bool" where
  "isObject v = (\<not> nullish v \<and> typeof v = ''object'')"

definition createBody :: "nest_release \<Rightarrow> jsval \<Rightarrow> string \<Rightarrow> int \<Rightarrow> jsval" where
  "createBody release objectOrError description status =
     (case release of
        ByTruthiness \<Rightarrow>
          if \<not> Boolean objectOrError
          then JObject [(''statusCode'', JNumber status), (''message'', JString description)]
          else if isObject objectOrError then objectOrError
          else JObject [(''statusCode'', JNumber status), (''message'', objectOrError),
                        (''error'', JString description)]
      | ByType \<Rightarrow>
          if \<not> Boolean objectOrError
          then JObject [(''message'', JString description), (''statusCode'', JNumber status)]
          else if typeof objectOrError = ''string''
          then JObject [(''message'', objectOrError), (''error'', JString description),
                        (''statusCode'', JNumber status)]
          else objectOrError)"

definition InternalServerErrorException :: "nest_release \<Rightarrow> jsval \<Rightarrow> jsval" where
  "InternalServerErrorException release objectOrError =
     createBody release objectOrError ''Internal Server Error'' 500"

text \<open>
  Modelled from the spec: the class \<open>ApiException\<close> of \<open>libs/utils\<close> is not among the
  sources. The spec calls it the application's global exception type and the service
  imports it as \<open>ApiException\<close>; \<open>ApiException.name\<close> is that class name. What
  \<open>new ApiException(response, status, context).getResponse()\<close> returns is not stated
  anywhere, so it is a parameter of the runtime.
\<close>

definition ApiException_name :: string where
  "ApiException_name = ''ApiException''"

definition Error_name :: string where
  "Error_name = ''Error''"

definition TypeError_name :: string where
  "TypeError_name = ''TypeError''"

record runtime =
  nest :: nest_release
  ApiException_getResponse :: "jsval \<Rightarrow> jsval \<Rightarrow> jsval \<Rightarrow> jsval"
  uuidv4 :: "nat \<Rightarrow> string"
  now :: DateTime

text \<open>
  \<open>uuidv4 rt k\<close> is the identifier the \<open>k\<close>-th call of \<open>uuidv4()\<close> returns, \<open>now rt\<close> the
  reading of \<open>new Date()\<close> in the zone of \<open>process.env.TZ\<close>.
\<close>

section \<open>The logger service\<close>

text \<open>
  The pino logger keeps its bindings and, in the model, the calls made to it: the level of
  the call, the merging object and the coloured message. \<open>this.pino\<close> is unset until
  \<open>connect\<close> has run, and \<open>this.app\<close> until \<open>setApplication\<close> has.
  Whether pino then writes a call to its streams depends on the configured level and is
  left to pino.
\<close>

record log_call =
  call_level :: string
  mergingObject :: "(string \<times> jsval) list"
  colour :: string
  message :: jsval

record pino_logger =
  level :: jsval
  bindings :: "(string \<times> jsval) list"
  calls :: "log_call list"

record LoggerService =
  app :: jsval
  pino :: "pino_logger option"
  generated :: nat

text \<open>\<open>generated\<close> counts the identifiers \<open>uuidv4()\<close> has returned so far.\<close>

definition getDateFormat :: "DateTime \<Rightarrow> string \<Rightarrow> string" where
  "getDateFormat date format = toFormat date format"

definition default_format :: string where
  "default_format = ''dd/MM/yyyy HH:mm:ss''"

text \<open>The index name the constructor hands to the Elasticsearch stream.\<close>

definition index :: "runtime \<Rightarrow> string" where
  "index rt = ''monorepo-logs-'' @ getDateFormat (now rt) ''yyyy-MM''"

definition connect :: "LoggerService \<Rightarrow> jsval \<Rightarrow> LoggerService" where
  "connect svc logLevel =
     svc\<lparr>pino := Some \<lparr>level = find_Boolean [logLevel, JString ''trace''], bindings = [], calls = []\<rparr>\<rparr>"

definition setApplication :: "LoggerService \<Rightarrow> jsval \<Rightarrow> LoggerService" where
  "setApplication svc a = svc\<lparr>app := a\<rparr>"

text \<open>\<open>this.pino.logger\<close>: reading \<open>logger\<close> of an unset \<open>this.pino\<close> throws.\<close>

definition pino_logger_of :: "LoggerService \<Rightarrow> pino_logger completion" where
  "pino_logger_of svc =
     (case pino svc of
        None \<Rightarrow> Inl (TypeError ''Cannot read properties of undefined (reading logger)'')
      | Some p \<Rightarrow> Inr p)"

definition write_call :: "LoggerService \<Rightarrow> pino_logger \<Rightarrow> log_call \<Rightarrow> LoggerService" where
  "write_call svc p c = svc\<lparr>pino := Some (p\<lparr>calls := calls p @ [c]\<rparr>)\<rparr>"

subsection \<open>getTraceId\<close>

definition getTraceId :: "runtime \<Rightarrow> LoggerService \<Rightarrow> jsval \<Rightarrow> (jsval \<times> LoggerService) completion" where
  "getTraceId rt svc error =
     (if typeof error = ''string''
      then Inr (JString (uuidv4 rt (generated svc)), svc\<lparr>generated := Suc (generated svc)\<rparr>)
      else
        and_then (get_member error ''traceid'') (\<lambda>traceid.
        and_then (pino_logger_of svc) (\<lambda>p.
          Inr (find_Boolean [traceid, opt_member (JObject (bindings p)) ''tranceId''], svc))))"

subsection \<open>getErrorResponse\<close>

text \<open>
  An entry of the array: its condition, computed when the array is built, and its
  \<open>value\<close> function, written as the completion of calling it.
\<close>

record response_case =
  conditional :: bool
  value_call :: "jsval completion"

definition string_value :: "runtime \<Rightarrow> jsval \<Rightarrow> jsval completion" where
  "string_value rt error = Inr (InternalServerErrorException (nest rt) error)"

definition response_string_value :: "runtime \<Rightarrow> jsval \<Rightarrow> jsval completion" where
  "response_string_value rt error =
     and_then (call_method error ''getResponse'') (\<lambda>response.
     and_then (call_method error ''getStatus'') (\<lambda>status.
     and_then (get_member error ''status'') (\<lambda>status'.
     and_then (get_member error ''context'') (\<lambda>context.
       Inr (ApiException_getResponse rt response (find_Boolean [status, status']) context)))))"

definition response_object_value :: "jsval \<Rightarrow> jsval completion" where
  "response_object_value error =
     (if nullish error then Inr JUndefined else call_method error ''getResponse'')"

definition generic_error_value :: "runtime \<Rightarrow> jsval \<Rightarrow> jsval completion" where
  "generic_error_value rt error =
     and_then (get_member error ''message'') (\<lambda>m. Inr (InternalServerErrorException (nest rt) m))"

definition getErrorResponse :: "runtime \<Rightarrow> jsval \<Rightarrow> response_case option completion" where
  "getErrorResponse rt error =
     (let isFunction = (typeof (opt_member error ''getResponse'') = ''function'') in
      and_then (if isFunction
                then and_then (call_method error ''getResponse'') (\<lambda>r. Inr (typeof r = ''string''))
                else Inr False) (\<lambda>returns_string.
      and_then (if isFunction
                then and_then (call_method error ''getResponse'') (\<lambda>r. Inr (typeof r = ''object''))
                else Inr False) (\<lambda>returns_object.
      and_then (loose_eq (opt_member error ''name'') TypeError_name) (\<lambda>is_TypeError.
        Inr (List.find conditional
          [\<lparr>conditional = (typeof error = ''string''), value_call = string_value rt error\<rparr>,
           \<lparr>conditional = returns_string, value_call = response_string_value rt error\<rparr>,
           \<lparr>conditional = returns_object, value_call = response_object_value error\<rparr>,
           \<lparr>conditional = list_ex Boolean
                [JBoolean (opt_member error ''name'' = JString Error_name), JBoolean is_TypeError],
            value_call = generic_error_value rt error\<rparr>])))))"

subsection \<open>error and fatal\<close>

definition type_table :: "(string \<times> jsval) list" where
  "type_table = [(''Error'', JString ApiException_name)]"

text \<open>
  The first two statements of \<open>error\<close>: the normalization runs, then \<open>response\<close> is
  either copied from a value named \<open>ApiException\<close> or \<open>errorResponse?.value()\<close>.
\<close>

definition optional_value :: "response_case option \<Rightarrow> jsval completion" where
  "optional_value errorResponse = (case errorResponse of None \<Rightarrow> Inr JUndefined | Some c \<Rightarrow> value_call c)"

definition error_response :: "runtime \<Rightarrow> jsval \<Rightarrow> jsval completion" where
  "error_response rt err =
     and_then (getErrorResponse rt err) (\<lambda>errorResponse.
       if opt_member err ''name'' = JString ApiException_name
       then and_then (get_member err ''statusCode'') (\<lambda>statusCode.
              Inr (JObject [(''statusCode'', statusCode), (''message'', opt_member err ''message'')]))
       else optional_value errorResponse)"

definition error :: "runtime \<Rightarrow> LoggerService \<Rightarrow> jsval \<Rightarrow> jsval \<Rightarrow> jsval \<Rightarrow> LoggerService completion" where
  "error rt svc err msg context =
     and_then (error_response rt err) (\<lambda>response.
     and_then (ToString (opt_member err ''name'')) (\<lambda>key.
     let type = computed_member type_table key in
     and_then (pino_logger_of svc) (\<lambda>p.
     and_then (getTraceId rt svc err) (\<lambda>(traceid, svc').
     and_then (get_member err ''stack'') (\<lambda>stack.
       Inr (write_call svc' p
         \<lparr>call_level = ''error'',
          mergingObject = assign (spread response)
            [(''context'', find_Boolean [context, app svc]),
             (''type'', find_Boolean [type, opt_member err ''name'']),
             (''traceid'', traceid),
             (''timestamp'', JString (getDateFormat (now rt) default_format)),
             (''application'', app svc),
             (''stack'', stack)],
          colour = ''red'',
          message = msg\<rparr>))))))"

definition fatal :: "runtime \<Rightarrow> LoggerService \<Rightarrow> jsval \<Rightarrow> jsval \<Rightarrow> jsval \<Rightarrow> LoggerService completion" where
  "fatal rt svc err msg context =
     and_then (pino_logger_of svc) (\<lambda>p.
     and_then (call_method err ''getResponse'') (\<lambda>response.
     and_then (get_member err ''name'') (\<lambda>name.
     and_then (getTraceId rt svc err) (\<lambda>(traceid, svc').
     and_then (get_member err ''stack'') (\<lambda>stack.
       Inr (write_call svc' p
         \<lparr>call_level = ''fatal'',
          mergingObject = assign (spread response)
            [(''context'', find_Boolean [context, app svc]),
             (''type'', name),
             (''traceid'', traceid),
             (''timestamp'', JString (getDateFormat (now rt) default_format)),
             (''application'', app svc),
             (''stack'', stack)],
          colour = ''red'',
          message = msg\<rparr>))))))"

subsection \<open>The HTTP hooks: customProps and customLogLevel\<close>

definition customProps :: "runtime \<Rightarrow> LoggerService \<Rightarrow> jsval \<Rightarrow> (jsval \<times> LoggerService) completion" where
  "customProps rt svc request =
     and_then (get_member request ''context'') (\<lambda>context.
     and_then (get_member request ''id'') (\<lambda>id.
     let traceid = find_Boolean [opt_member (opt_member request ''headers'') ''traceid'', id] in
     and_then (and_then (get_member request ''protocol'') ToString) (\<lambda>protocol.
     and_then (get_member request ''headers'') (\<lambda>headers.
     and_then (and_then (get_member headers ''host'') ToString) (\<lambda>host.
     and_then (and_then (get_member request ''url'') ToString) (\<lambda>url.
     let path = protocol @ ''://'' @ host @ url;
         props = [(''traceid'', traceid),
                  (''application'', app svc),
                  (''context'', context),
                  (''path'', JString path),
                  (''timestamp'', JString (getDateFormat (now rt) default_format))] in
     and_then (pino_logger_of svc) (\<lambda>p.
       Inr (JObject props, svc\<lparr>pino := Some (p\<lparr>bindings := assign (bindings p) props\<rparr>)\<rparr>))))))))"

text \<open>The response handed to the hook by the HTTP server: its status code is a number.\<close>

record ServerResponse =
  statusCode :: int

definition customLogLevel :: "ServerResponse \<Rightarrow> jsval \<Rightarrow> string" where
  "customLogLevel res err =
     (if list_ex Boolean [JBoolean (statusCode res \<ge> 400), err] then ''error''
      else if list_all Boolean [JBoolean (statusCode res \<ge> 300), JBoolean (statusCode res \<le> 400)]
      then ''silent''
      else ''info'')"

section \<open>The health endpoint\<close>

text \<open>
  Modelled from the spec: the controller, the health service, \<open>ApiException\<close> and the
  exception filter are not among the sources; only the end-to-end test of the endpoint
  is. The spec gives the contract: \<open>GET /health\<close> calls the service; on success it
  responds 200 with the plain text \<open>{name} UP!!\<close>; on failure it responds with the
  error's declared status code (default 500) and a JSON body \<open>{statusCode, message}\<close>.
\<close>

record ApiException =
  declared_status :: "int option"
  error_message :: string

datatype http_body = Text string | Json jsval

record http_response =
  status :: int
  body :: http_body

definition getText :: "string \<Rightarrow> string" where
  "getText name = name @ '' UP!!''"

definition getStatus :: "ApiException \<Rightarrow> int" where
  "getStatus e = (case declared_status e of Some s \<Rightarrow> s | None \<Rightarrow> 500)"

definition getHealth :: "ApiException + string \<Rightarrow> http_response" where
  "getHealth outcome =
     (case outcome of
        Inr text \<Rightarrow> \<lparr>status = 200, body = Text text\<rparr>
      | Inl e \<Rightarrow>
          \<lparr>status = getStatus e,
           body = Json (JObject [(''statusCode'', JNumber (getStatus e)),
                                 (''message'', JString (error_message e))])\<rparr>)"

section \<open>Observations, the ordered cases in the spec's words, and sample inputs\<close>

text \<open>
  The records an operation emits are the calls it adds to the pino logger: those of the
  resulting service beyond the ones the service had before; none when the operation
  throws.
\<close>

definition calls_of :: "LoggerService \<Rightarrow> log_call list" where
  "calls_of svc = (case pino svc of None \<Rightarrow> [] | Some p \<Rightarrow> calls p)"

definition emitted :: "LoggerService \<Rightarrow> LoggerService completion \<Rightarrow> log_call list" where
  "emitted svc result =
     (case result of Inl x \<Rightarrow> [] | Inr svc' \<Rightarrow> drop (length (calls_of svc)) (calls_of svc'))"

text \<open>The keys \<open>error\<close> and \<open>fatal\<close> write themselves, after the spread.\<close>

definition own_keys :: "string list" where
  "own_keys = [''context'', ''type'', ''traceid'', ''timestamp'', ''application'', ''stack'']"

definition own_fields ::
  "jsval \<Rightarrow> jsval \<Rightarrow> jsval \<Rightarrow> jsval \<Rightarrow> jsval \<Rightarrow> jsval \<Rightarrow> (string \<times> jsval) list" where
  "own_fields c t tr ts a st =
     [(''context'', c), (''type'', t), (''traceid'', tr), (''timestamp'', ts), (''application'', a),
      (''stack'', st)]"

text \<open>
  The normalization as the spec words it, to be compared with \<open>getErrorResponse\<close>:
  ordered, first match wins.
  \<^enum> value is a string;
  \<^enum> value exposes a response accessor returning a string;
  \<^enum> value exposes a response accessor returning a structured object;
  \<^enum> value's declared type name is exactly \<open>Error\<close> or \<open>TypeError\<close>;
  \<^enum> otherwise: no special handling.

  An accessor that throws returns nothing; a structured object is an object, which
  \<open>null\<close> is not; the name is exactly \<open>Error\<close> when it is that string.
\<close>

definition response_accessor :: "jsval \<Rightarrow> jsval option completion" where
  "response_accessor err =
     (if typeof (opt_member err ''getResponse'') = ''function''
      then and_then (call_method err ''getResponse'') (\<lambda>r. Inr (Some r))
      else Inr None)"

definition returned_by_accessor :: "jsval \<Rightarrow> jsval option" where
  "returned_by_accessor err = (case response_accessor err of Inl x \<Rightarrow> None | Inr response \<Rightarrow> response)"

definition is_structured_object :: "jsval \<Rightarrow> bool" where
  "is_structured_object v = (case v of JObject ps \<Rightarrow> True | _ \<Rightarrow> False)"

definition first_match :: "runtime \<Rightarrow> jsval \<Rightarrow> response_case option" where
  "first_match rt err =
     (if typeof err = ''string''
      then Some \<lparr>conditional = True, value_call = string_value rt err\<rparr>
      else if (case returned_by_accessor err of None \<Rightarrow> False | Some r \<Rightarrow> typeof r = ''string'')
      then Some \<lparr>conditional = True, value_call = response_string_value rt err\<rparr>
      else if (case returned_by_accessor err of None \<Rightarrow> False | Some r \<Rightarrow> is_structured_object r)
      then Some \<lparr>conditional = True, value_call = response_object_value err\<rparr>
      else if opt_member err ''name'' = JString ''Error'' \<or> opt_member err ''name'' = JString ''TypeError''
      then Some \<lparr>conditional = True, value_call = generic_error_value rt err\<rparr>
      else None)"

text \<open>
  The same cascade over the tests the code makes instead: the third case asks whether
  \<open>typeof\<close> of what the accessor returned is \<open>object\<close>, which is true of \<open>null\<close> as well,
  and the fourth compares the name with \<open>TypeError\<close> by \<open>==\<close>, whose outcome is
  \<open>is_TypeError\<close>. \<open>response\<close> is what the accessor returned, when the value exposes one.
\<close>

definition returns_type :: "jsval option \<Rightarrow> string \<Rightarrow> bool" where
  "returns_type response t = (case response of None \<Rightarrow> False | Some r \<Rightarrow> typeof r = t)"

definition first_match_tested :: "runtime \<Rightarrow> jsval \<Rightarrow> jsval option \<Rightarrow> bool \<Rightarrow> response_case option" where
  "first_match_tested rt err response is_TypeError =
     (if typeof err = ''string''
      then Some \<lparr>conditional = True, value_call = string_value rt err\<rparr>
      else if returns_type response ''string''
      then Some \<lparr>conditional = True, value_call = response_string_value rt err\<rparr>
      else if returns_type response ''object''
      then Some \<lparr>conditional = True, value_call = response_object_value err\<rparr>
      else if opt_member err ''name'' = JString ''Error'' \<or> is_TypeError
      then Some \<lparr>conditional = True, value_call = generic_error_value rt err\<rparr>
      else None)"

text \<open>A runtime, a connected service and a request to evaluate the operations on.\<close>

definition sample_runtime :: runtime where
  "sample_runtime =
     \<lparr>nest = ByType,
      ApiException_getResponse =
        (\<lambda>response status context. JObject [(''statusCode'', status), (''message'', response)]),
      uuidv4 = (\<lambda>k. replicate (Suc k) CHR ''u''),
      now = Valid \<lparr>year = 2024, month = 5, day = 15, hour = 9, minute = 3, second = 7\<rparr>\<rparr>"

definition sample_service :: LoggerService where
  "sample_service =
     setApplication (connect \<lparr>app = JUndefined, pino = None, generated = 0\<rparr> (JString ''info''))
       (JString ''main-api'')"


definition generic_error :: jsval where
  "generic_error =
     JObject [(''name'', JString ''Error''), (''message'', JString ''boom''),
              (''stack'', JString ''Error: boom'')]"

definition error_with_accessor :: jsval where
  "error_with_accessor =
     JObject [(''name'', JString ''Error''), (''message'', JString ''boom''),
              (''getResponse'', JFunction ''getResponse'' (Inr (JObject [(''reason'', JString ''quota'')])))]"

text \<open>
  Three more values: one named \<open>Error\<close> whose accessor returns \<open>null\<close>; one whose name is
  an object that converts to \<open>TypeError\<close>; one whose accessor returns an object and whose
  name is an object that throws when converted.
\<close>

definition null_response_error :: jsval where
  "null_response_error =
     JObject [(''name'', JString ''Error''), (''message'', JString ''boom''),
              (''getResponse'', JFunction ''getResponse'' (Inr JNull))]"

definition converted_name_error :: jsval where
  "converted_name_error =
     JObject [(''name'', JObject [(''toString'', JFunction ''toString'' (Inr (JString ''TypeError'')))]),
              (''message'', JString ''boom'')]"

definition throwing_name_error :: jsval where
  "throwing_name_error =
     JObject [(''name'', JObject [(''toString'', JFunction ''toString'' (Inl (JString ''no name'')))]),
              (''getResponse'', JFunction ''getResponse'' (Inr (JObject [(''reason'', JString ''quota'')])))]"


definition sample_request :: jsval where
  "sample_request =
     JObject [(''headers'', JObject [(''traceid'', JString ''abc''), (''host'', JString ''localhost'')]),
              (''protocol'', JString ''http''),
              (''url'', JString ''/health'')]"

section \<open>Basic facts\<close>

lemma and_then_Inr_iff: "and_then m f = Inr y \<longleftrightarrow> (\<exists>v. m = Inr v \<and> f v = Inr y)"
  by (cases m) (simp_all add: and_then_def)

lemma and_then_Inr [simp]: "and_then (Inr v) f = f v"
  by (simp add: and_then_def)

lemma and_then_Inl [simp]: "and_then (Inl x) f = Inl x"
  by (simp add: and_then_def)

lemma not_isl_Inr: "\<not> isl x \<Longrightarrow> \<exists>y. x = Inr y"
  by (cases x) auto

lemma opt_member_defined: "opt_member v k = JString s \<Longrightarrow> \<not> nullish v \<and> typeof v \<noteq> ''string''"
  by (cases v) (auto simp: nullish_def)

lemma get_member_defined: "\<not> nullish v \<Longrightarrow> get_member v k = Inr (opt_member v k)"
  by (simp add: get_member_def)

lemma loose_eq_JString: "loose_eq (JString t) s = Inr (t = s)"
  by (simp add: loose_eq_def)

subsection \<open>Object literals\<close>

lemma map_of_set_prop: "map_of (set_prop k v ps) = (map_of ps)(k \<mapsto> v)"
  by (induction ps) (auto simp: fun_eq_iff)

lemma map_of_assign_other:
  "k \<notin> fst ` set props \<Longrightarrow> map_of (assign ps props) k = map_of ps k"
proof (induction props arbitrary: ps)
  case Nil
  then show ?case by (simp add: assign_def)
next
  case (Cons kv props)
  then have "map_of (assign (set_prop (fst kv) (snd kv) ps) props) k =
             map_of (set_prop (fst kv) (snd kv) ps) k"
    by simp
  with Cons.prems show ?case
    by (simp add: assign_def map_of_set_prop)
qed

lemma map_of_assign_own:
  "map_of (assign ps (own_fields c t tr ts a st)) k =
     (if k \<in> set own_keys then map_of (own_fields c t tr ts a st) k else map_of ps k)"
  by (simp add: assign_def own_fields_def own_keys_def map_of_set_prop)


lemma computed_member_Error: "computed_member type_table ''Error'' = JString ''ApiException''"
  by (simp add: computed_member_def type_table_def ApiException_name_def)

subsection \<open>The body NestJS builds for a string\<close>

lemma statusCode_InternalServerErrorException_string:
  "opt_member (InternalServerErrorException release (JString s)) ''statusCode'' = JNumber 500"
  by (cases release) (auto simp: InternalServerErrorException_def createBody_def isObject_def nullish_def)

lemma message_InternalServerErrorException_string:
  "s \<noteq> [] \<Longrightarrow> opt_member (InternalServerErrorException release (JString s)) ''message'' = JString s"
  by (cases release) (auto simp: InternalServerErrorException_def createBody_def isObject_def nullish_def)

lemma InternalServerErrorException_string_object:
  "\<exists>ps. InternalServerErrorException release (JString s) = JObject ps"
  by (cases release) (auto simp: InternalServerErrorException_def createBody_def isObject_def nullish_def)


lemma loose_eq_not_object:
  "\<forall>ps. v \<noteq> JObject ps \<Longrightarrow> loose_eq v s = Inr (v = JString s)"
  by (cases v) (auto simp: loose_eq_def)

lemma getErrorResponse_tested:
  "getErrorResponse rt err =
     and_then (response_accessor err) (\<lambda>response.
     and_then (loose_eq (opt_member err ''name'') ''TypeError'') (\<lambda>is_TypeError.
       Inr (first_match_tested rt err response is_TypeError)))"
proof (cases "typeof (opt_member err ''getResponse'') = ''function''")
  case False
  then show ?thesis
    by (cases "loose_eq (opt_member err ''name'') ''TypeError''")
       (auto simp: getErrorResponse_def response_accessor_def first_match_tested_def returns_type_def
          TypeError_name_def Error_name_def)
next
  case True
  then show ?thesis
    by (cases "call_method err ''getResponse''"; cases "loose_eq (opt_member err ''name'') ''TypeError''")
       (auto simp: getErrorResponse_def response_accessor_def first_match_tested_def returns_type_def
          TypeError_name_def Error_name_def)
qed

lemma typeof_object: "typeof r = ''object'' \<longleftrightarrow> r = JNull \<or> is_structured_object r"
  by (cases r) (auto simp: is_structured_object_def)

lemma first_match_tested_strict:
  assumes "response_accessor err = Inr response" and "response \<noteq> Some JNull"
  shows "first_match_tested rt err response (opt_member err ''name'' = JString ''TypeError'') =
         first_match rt err"
proof -
  have r: "returned_by_accessor err = response"
    using assms(1) by (simp add: returned_by_accessor_def)
  have "returns_type response ''object'' =
        (case response of None \<Rightarrow> False | Some v \<Rightarrow> is_structured_object v)"
    using assms(2) by (cases response) (auto simp: returns_type_def typeof_object)
  then show ?thesis
    by (simp add: first_match_tested_def first_match_def r returns_type_def)
qed

subsection \<open>The sample service\<close>

lemma sample_connected:
  "pino sample_service = Some \<lparr>level = JString ''info'', bindings = [], calls = []\<rparr>"
  by (simp add: sample_service_def connect_def setApplication_def find_Boolean_def)

lemma sample_uuidv4_inj: "inj (uuidv4 sample_runtime)"
  by (auto simp: sample_runtime_def inj_def dest: arg_cong [where f = length])

lemma sample_uuidv4_nonempty: "\<forall>k. uuidv4 sample_runtime k \<noteq> []"
  by (simp add: sample_runtime_def)

subsection \<open>What a completed call of error has done\<close>

lemma emitted_write_call:
  "pino svc = Some p \<Longrightarrow> emitted svc (Inr (write_call svc1 p c)) = [c]"
  by (simp add: emitted_def calls_of_def write_call_def)

lemma error_completes:
  assumes "error rt svc err msg context = Inr svc'"
  obtains response key p traceid svc1 where
    "error_response rt err = Inr response"
    "ToString (opt_member err ''name'') = Inr key"
    "pino svc = Some p"
    "getTraceId rt svc err = Inr (traceid, svc1)"
    "\<not> nullish err"
    "svc' = write_call svc1 p
       \<lparr>call_level = ''error'',
        mergingObject = assign (spread response)
          (own_fields (find_Boolean [context, app svc])
             (find_Boolean [computed_member type_table key, opt_member err ''name''])
             traceid (JString (getDateFormat (now rt) default_format)) (app svc) (opt_member err ''stack'')),
        colour = ''red'', message = msg\<rparr>"
  using assms
  by (auto simp: error_def and_then_Inr_iff pino_logger_of_def get_member_def own_fields_def nullish_def
        split: option.splits if_splits)

lemma normalize_string:
  "and_then (getErrorResponse rt (JString s)) optional_value =
     Inr (InternalServerErrorException (nest rt) (JString s))"
  by (simp add: getErrorResponse_def loose_eq_def optional_value_def string_value_def)

lemma error_response_string:
  "error_response rt (JString s) = Inr (InternalServerErrorException (nest rt) (JString s))"
  by (simp add: error_response_def getErrorResponse_def loose_eq_def optional_value_def string_value_def)

lemma string_error_once:
  assumes "pino svc = Some p"
  shows "\<exists>svc' r. error rt svc (JString s) msg context = Inr svc' \<and> emitted svc (Inr svc') = [r] \<and>
           generated svc' = Suc (generated svc) \<and> pino svc' \<noteq> None \<and>
           map_of (mergingObject r) ''statusCode'' = Some (JNumber 500) \<and>
           map_of (mergingObject r) ''traceid'' = Some (JString (uuidv4 rt (generated svc)))"
proof -
  obtain ps where body: "InternalServerErrorException (nest rt) (JString s) = JObject ps"
    using InternalServerErrorException_string_object by blast
  have sc: "map_of ps ''statusCode'' = Some (JNumber 500)"
    using statusCode_InternalServerErrorException_string [of "nest rt" s] body
    by (auto split: option.splits)
  let ?r = "\<lparr>call_level = ''error'',
        mergingObject = assign ps
          (own_fields (find_Boolean [context, app svc])
             (find_Boolean [computed_member type_table ''undefined'', JUndefined])
             (JString (uuidv4 rt (generated svc))) (JString (getDateFormat (now rt) default_format))
             (app svc) JUndefined),
        colour = ''red'', message = msg\<rparr>"
  have run: "error rt svc (JString s) msg context =
               Inr (write_call (svc\<lparr>generated := Suc (generated svc)\<rparr>) p ?r)"
    using assms body
    by (simp add: error_def error_response_string ToString_def pino_logger_of_def getTraceId_def
          get_member_def nullish_def own_fields_def)
  have "map_of (mergingObject ?r) ''statusCode'' = Some (JNumber 500)"
    using sc by (simp add: map_of_assign_own) (simp add: own_keys_def)
  moreover have "map_of (mergingObject ?r) ''traceid'' = Some (JString (uuidv4 rt (generated svc)))"
    by (simp add: map_of_assign_own) (simp add: own_keys_def own_fields_def)
  moreover have "emitted svc (Inr (write_call (svc\<lparr>generated := Suc (generated svc)\<rparr>) p ?r)) = [?r]"
    using assms by (simp add: emitted_write_call)
  moreover have "generated (write_call (svc\<lparr>generated := Suc (generated svc)\<rparr>) p ?r) = Suc (generated svc)"
    by (simp add: write_call_def)
  moreover have "pino (write_call (svc\<lparr>generated := Suc (generated svc)\<rparr>) p ?r) \<noteq> None"
    by (simp add: write_call_def)
  ultimately show ?thesis
    using run by blast
qed

section \<open>The order of the normalization cases\<close>

text \<open>
  C2, as the code has it. \<open>getErrorResponse\<close> tries its cases in the fixed order string
  value, response accessor returning a string, response accessor returning a value whose
  \<open>typeof\<close> is \<open>object\<close> (a structured object or \<open>null\<close>), name \<open>=== 'Error'\<close> or
  \<open>== 'TypeError'\<close>; the four conditions are computed before any is looked at, so the
  function throws what the accessor or the conversion of the name throws; otherwise the
  first case whose condition holds is the result, and a value matching none of them gets
  no entry at all. On every value whose accessor, if it has one, returns without throwing
  something other than \<open>null\<close>, and whose name is not an object, that is the cascade in the
  spec's words: accessor returning a structured object, name exactly \<open>Error\<close> or
  \<open>TypeError\<close>.
\<close>

theorem getErrorResponse_first_match:
  "getErrorResponse rt err =
     and_then (response_accessor err) (\<lambda>response.
     and_then (loose_eq (opt_member err ''name'') ''TypeError'') (\<lambda>is_TypeError.
       Inr (first_match_tested rt err response is_TypeError))) \<and>
   ((\<exists>response. response_accessor err = Inr response \<and> response \<noteq> Some JNull) \<and>
    (\<forall>ps. opt_member err ''name'' \<noteq> JObject ps) \<longrightarrow>
      getErrorResponse rt err = Inr (first_match rt err))"
proof (intro conjI impI)
  show "getErrorResponse rt err =
     and_then (response_accessor err) (\<lambda>response.
     and_then (loose_eq (opt_member err ''name'') ''TypeError'') (\<lambda>is_TypeError.
       Inr (first_match_tested rt err response is_TypeError)))"
    by (rule getErrorResponse_tested)
next
  assume a: "(\<exists>response. response_accessor err = Inr response \<and> response \<noteq> Some JNull) \<and>
             (\<forall>ps. opt_member err ''name'' \<noteq> JObject ps)"
  then obtain response where
    r: "response_accessor err = Inr response" and n: "response \<noteq> Some JNull"
    by blast
  from a have l: "loose_eq (opt_member err ''name'') ''TypeError'' =
                    Inr (opt_member err ''name'' = JString ''TypeError'')"
    by (simp add: loose_eq_not_object)
  show "getErrorResponse rt err = Inr (first_match rt err)"
    by (simp add: getErrorResponse_tested r l first_match_tested_strict [OF r n])
qed

text \<open>
  The theorem at the plain \<open>Error\<close> (fourth case) and at the exception with an accessor
  returning an object (third case).
\<close>

theorem getErrorResponse_first_match_witness:
  "getErrorResponse sample_runtime generic_error = Inr (first_match sample_runtime generic_error) \<and>
   optional_value (first_match sample_runtime generic_error) =
     Inr (JObject [(''message'', JString ''boom''), (''error'', JString ''Internal Server Error''),
                   (''statusCode'', JNumber 500)]) \<and>
   getErrorResponse sample_runtime error_with_accessor =
     Inr (first_match sample_runtime error_with_accessor) \<and>
   optional_value (first_match sample_runtime error_with_accessor) =
     Inr (JObject [(''reason'', JString ''quota'')])"
proof -
  have g: "(\<exists>response. response_accessor generic_error = Inr response \<and> response \<noteq> Some JNull) \<and>
           (\<forall>ps. opt_member generic_error ''name'' \<noteq> JObject ps)"
    by (simp add: response_accessor_def generic_error_def)
  have a: "(\<exists>response. response_accessor error_with_accessor = Inr response \<and> response \<noteq> Some JNull) \<and>
           (\<forall>ps. opt_member error_with_accessor ''name'' \<noteq> JObject ps)"
    by (simp add: response_accessor_def error_with_accessor_def call_method_def get_member_def nullish_def)
  have v1: "optional_value (first_match sample_runtime generic_error) =
     Inr (JObject [(''message'', JString ''boom''), (''error'', JString ''Internal Server Error''),
                   (''statusCode'', JNumber 500)])"
    by code_simp
  have v2: "optional_value (first_match sample_runtime error_with_accessor) =
     Inr (JObject [(''reason'', JString ''quota'')])"
    by code_simp
  from getErrorResponse_first_match [of sample_runtime generic_error] g
       getErrorResponse_first_match [of sample_runtime error_with_accessor] a v1 v2
  show ?thesis
    by blast
qed

text \<open>
  C2 as stated fails on three values. The accessor of the first returns \<open>null\<close>, which
  is no structured object, and its name is \<open>Error\<close>: the spec's cascade takes the fourth
  case, the code the third, and the result is \<open>null\<close>. The name of the second is an
  object, not the string \<open>TypeError\<close>: the spec's cascade has no case for it, the code
  takes the fourth. The accessor of the third returns an object, so the third case
  holds, but the code throws what the conversion of the name throws.
\<close>

theorem getErrorResponse_counterexample:
  "and_then (getErrorResponse sample_runtime null_response_error) optional_value = Inr JNull \<and>
   optional_value (first_match sample_runtime null_response_error) =
     Inr (JObject [(''message'', JString ''boom''), (''error'', JString ''Internal Server Error''),
                   (''statusCode'', JNumber 500)]) \<and>
   and_then (getErrorResponse sample_runtime converted_name_error) optional_value =
     Inr (JObject [(''message'', JString ''boom''), (''error'', JString ''Internal Server Error''),
                   (''statusCode'', JNumber 500)]) \<and>
   first_match sample_runtime converted_name_error = None \<and>
   getErrorResponse sample_runtime throwing_name_error = Inl (JString ''no name'') \<and>
   optional_value (first_match sample_runtime throwing_name_error) =
     Inr (JObject [(''reason'', JString ''quota'')])"
  by code_simp

section \<open>The record error emits\<close>




section \<open>The type tag of a value named Error\<close>

text \<open>
  C10. For every value whose name is exactly \<open>Error\<close>, the record \<open>error\<close> emits has the
  type tag \<open>ApiException\<close>, not \<open>Error\<close>: the table remaps the name before the value's
  own name is considered. The record is emitted whenever the logger is connected and the
  value has no callable response accessor (with one, the accessor may throw).
\<close>

theorem error_type_tag_of_Error:
  assumes "opt_member err ''name'' = JString ''Error''"
  shows "(\<forall>svc'. error rt svc err msg context = Inr svc' \<longrightarrow>
            (\<exists>r. emitted svc (Inr svc') = [r] \<and>
                  map_of (mergingObject r) ''type'' = Some (JString ''ApiException''))) \<and>
         (pino svc \<noteq> None \<and> typeof (opt_member err ''getResponse'') \<noteq> ''function'' \<longrightarrow>
            (\<exists>svc'. error rt svc err msg context = Inr svc'))"
proof (intro conjI allI impI)
  fix svc'
  assume run: "error rt svc err msg context = Inr svc'"
  then obtain response key p traceid svc1 where
    key: "ToString (opt_member err ''name'') = Inr key" and
    p: "pino svc = Some p" and
    svc': "svc' = write_call svc1 p
       \<lparr>call_level = ''error'',
        mergingObject = assign (spread response)
          (own_fields (find_Boolean [context, app svc])
             (find_Boolean [computed_member type_table key, opt_member err ''name''])
             traceid (JString (getDateFormat (now rt) default_format)) (app svc) (opt_member err ''stack'')),
        colour = ''red'', message = msg\<rparr>"
    by (rule error_completes)
  from key assms have "key = ''Error''"
    by (simp add: ToString_def)
  then have tag: "find_Boolean [computed_member type_table key, opt_member err ''name''] =
                  JString ''ApiException''"
    by (simp add: computed_member_Error find_Boolean_def)
  show "\<exists>r. emitted svc (Inr svc') = [r] \<and>
            map_of (mergingObject r) ''type'' = Some (JString ''ApiException'')"
    using p svc' tag
    by (simp add: emitted_write_call map_of_assign_own) (simp add: own_keys_def own_fields_def)
next
  assume a: "pino svc \<noteq> None \<and> typeof (opt_member err ''getResponse'') \<noteq> ''function''"
  from assms have nn: "\<not> nullish err" and ns: "typeof err \<noteq> ''string''"
    using opt_member_defined by blast+
  from a obtain p where p: "pino svc = Some p" by auto
  have resp: "error_response rt err =
                Inr (InternalServerErrorException (nest rt) (opt_member err ''message''))"
    using a assms nn ns
    by (simp add: error_response_def getErrorResponse_def loose_eq_JString TypeError_name_def
          Error_name_def ApiException_name_def optional_value_def generic_error_value_def
          get_member_defined)
  show "\<exists>svc'. error rt svc err msg context = Inr svc'"
    using resp assms p nn ns
    by (simp add: error_def ToString_def pino_logger_of_def getTraceId_def get_member_defined)
qed

theorem error_type_tag_of_Error_witness:
  "\<exists>svc' r. error sample_runtime sample_service generic_error (JString ''failed'') JUndefined = Inr svc' \<and>
            emitted sample_service (Inr svc') = [r] \<and>
            map_of (mergingObject r) ''type'' = Some (JString ''ApiException'')"
proof -
  have name: "opt_member generic_error ''name'' = JString ''Error''"
    by (simp add: generic_error_def)
  have ready: "pino sample_service \<noteq> None \<and>
               typeof (opt_member generic_error ''getResponse'') \<noteq> ''function''"
    by (simp add: sample_connected generic_error_def)
  from error_type_tag_of_Error [OF name, of sample_runtime sample_service "JString ''failed''" JUndefined]
    ready
  show ?thesis
    by blast
qed

section \<open>String values\<close>

text \<open>
  C5. For every string the normalization yields a body with \<open>statusCode\<close> 500, and the
  record \<open>error\<close> emits carries that status and a trace id drawn from \<open>uuidv4\<close> at that
  call: two successive calls take two successive draws. The identifiers \<open>uuidv4\<close> returns
  are non-empty and do not repeat (the contract of the generator, assumed here); hence
  the trace ids are non-empty and differ from call to call.
\<close>

theorem string_error_status_and_trace_id:
  assumes "pino svc = Some p" and "inj (uuidv4 rt)" and "\<forall>k. uuidv4 rt k \<noteq> []"
  shows "(\<exists>body. and_then (getErrorResponse rt (JString s1)) optional_value = Inr body \<and>
                  opt_member body ''statusCode'' = JNumber 500) \<and>
         (\<exists>svc1 r1 svc2 r2 t1 t2.
            error rt svc (JString s1) msg1 context1 = Inr svc1 \<and> emitted svc (Inr svc1) = [r1] \<and>
            error rt svc1 (JString s2) msg2 context2 = Inr svc2 \<and> emitted svc1 (Inr svc2) = [r2] \<and>
            map_of (mergingObject r1) ''statusCode'' = Some (JNumber 500) \<and>
            map_of (mergingObject r2) ''statusCode'' = Some (JNumber 500) \<and>
            map_of (mergingObject r1) ''traceid'' = Some (JString t1) \<and>
            map_of (mergingObject r2) ''traceid'' = Some (JString t2) \<and>
            t1 = uuidv4 rt (generated svc) \<and> t2 = uuidv4 rt (Suc (generated svc)) \<and>
            t1 \<noteq> [] \<and> t2 \<noteq> [] \<and> t1 \<noteq> t2)"
proof
  show "\<exists>body. and_then (getErrorResponse rt (JString s1)) optional_value = Inr body \<and>
                opt_member body ''statusCode'' = JNumber 500"
    by (simp add: normalize_string statusCode_InternalServerErrorException_string)
next
  from string_error_once [OF assms(1), of rt s1 msg1 context1] obtain svc1 r1 where
    first: "error rt svc (JString s1) msg1 context1 = Inr svc1" "emitted svc (Inr svc1) = [r1]"
      "generated svc1 = Suc (generated svc)" "pino svc1 \<noteq> None"
      "map_of (mergingObject r1) ''statusCode'' = Some (JNumber 500)"
      "map_of (mergingObject r1) ''traceid'' = Some (JString (uuidv4 rt (generated svc)))"
    by blast
  from first(4) obtain p1 where p1: "pino svc1 = Some p1" by auto
  from string_error_once [OF p1, of rt s2 msg2 context2] first(3) obtain svc2 r2 where
    second: "error rt svc1 (JString s2) msg2 context2 = Inr svc2" "emitted svc1 (Inr svc2) = [r2]"
      "map_of (mergingObject r2) ''statusCode'' = Some (JNumber 500)"
      "map_of (mergingObject r2) ''traceid'' = Some (JString (uuidv4 rt (Suc (generated svc))))"
    by auto
  have distinct: "uuidv4 rt (generated svc) \<noteq> uuidv4 rt (Suc (generated svc))"
    using assms(2) by (auto dest: injD)
  from first second distinct assms(3)
  show "\<exists>svc1 r1 svc2 r2 t1 t2.
            error rt svc (JString s1) msg1 context1 = Inr svc1 \<and> emitted svc (Inr svc1) = [r1] \<and>
            error rt svc1 (JString s2) msg2 context2 = Inr svc2 \<and> emitted svc1 (Inr svc2) = [r2] \<and>
            map_of (mergingObject r1) ''statusCode'' = Some (JNumber 500) \<and>
            map_of (mergingObject r2) ''statusCode'' = Some (JNumber 500) \<and>
            map_of (mergingObject r1) ''traceid'' = Some (JString t1) \<and>
            map_of (mergingObject r2) ''traceid'' = Some (JString t2) \<and>
            t1 = uuidv4 rt (generated svc) \<and> t2 = uuidv4 rt (Suc (generated svc)) \<and>
            t1 \<noteq> [] \<and> t2 \<noteq> [] \<and> t1 \<noteq> t2"
    by blast
qed

theorem string_error_status_and_trace_id_witness:
  "\<exists>svc1 r1 svc2 r2.
      error sample_runtime sample_service (JString ''disk full'') (JString ''failed'') JUndefined = Inr svc1 \<and>
      emitted sample_service (Inr svc1) = [r1] \<and>
      error sample_runtime svc1 (JString ''disk full'') (JString ''failed again'') JUndefined = Inr svc2 \<and>
      emitted svc1 (Inr svc2) = [r2] \<and>
      map_of (mergingObject r1) ''statusCode'' = Some (JNumber 500) \<and>
      map_of (mergingObject r2) ''statusCode'' = Some (JNumber 500) \<and>
      map_of (mergingObject r1) ''traceid'' = Some (JString ''u'') \<and>
      map_of (mergingObject r2) ''traceid'' = Some (JString ''uu'')"
proof -
  have g: "generated sample_service = 0"
    by (simp add: sample_service_def connect_def setApplication_def)
  have u: "uuidv4 sample_runtime 0 = ''u''" "uuidv4 sample_runtime (Suc 0) = ''uu''"
    by (simp_all add: sample_runtime_def)
  from string_error_status_and_trace_id [OF sample_connected sample_uuidv4_inj sample_uuidv4_nonempty,
      of "''disk full''" "JString ''failed''" JUndefined "''disk full''" "JString ''failed again''" JUndefined]
  show ?thesis
    unfolding g u by blast
qed

section \<open>Values named Error or TypeError\<close>

text \<open>
  C6, as the code has it. For every value whose name is exactly \<open>Error\<close> or \<open>TypeError\<close>,
  that has no callable response accessor and whose message is a non-empty string, the
  normalized result has \<open>statusCode\<close> 500 and the value's own message.
\<close>

theorem generic_error_normalized:
  assumes "opt_member err ''name'' = JString ''Error'' \<or> opt_member err ''name'' = JString ''TypeError''"
    and "typeof (opt_member err ''getResponse'') \<noteq> ''function''"
    and "opt_member err ''message'' = JString m" and "m \<noteq> []"
  shows "\<exists>body. and_then (getErrorResponse rt err) optional_value = Inr body \<and>
                opt_member body ''statusCode'' = JNumber 500 \<and>
                opt_member body ''message'' = JString m"
proof -
  from assms(3) have nn: "\<not> nullish err" and ns: "typeof err \<noteq> ''string''"
    using opt_member_defined by blast+
  have "and_then (getErrorResponse rt err) optional_value =
          Inr (InternalServerErrorException (nest rt) (JString m))"
    using assms nn ns
    by (auto simp: getErrorResponse_def loose_eq_JString TypeError_name_def Error_name_def
          optional_value_def generic_error_value_def get_member_defined)
  then show ?thesis
    using assms(4)
    by (simp add: statusCode_InternalServerErrorException_string
          message_InternalServerErrorException_string)
qed

theorem generic_error_normalized_witness:
  "\<exists>body. and_then (getErrorResponse sample_runtime generic_error) optional_value = Inr body \<and>
          opt_member body ''statusCode'' = JNumber 500 \<and>
          opt_member body ''message'' = JString ''boom''"
proof -
  have "opt_member generic_error ''name'' = JString ''Error'' \<or>
        opt_member generic_error ''name'' = JString ''TypeError''"
    by (simp add: generic_error_def)
  moreover have "typeof (opt_member generic_error ''getResponse'') \<noteq> ''function''"
    by (simp add: generic_error_def)
  moreover have "opt_member generic_error ''message'' = JString ''boom''"
    by (simp add: generic_error_def)
  moreover have "''boom'' \<noteq> []"
    by simp
  ultimately show ?thesis
    by (rule generic_error_normalized)
qed

text \<open>
  C6 as stated fails on three values named \<open>Error\<close>. One carries a response accessor
  returning an object: the third case wins and the result is that object, without a
  status. One has no message: the result's message is the default description. One has
  the empty message: again the default description.
\<close>

theorem generic_error_counterexample:
  "and_then (getErrorResponse sample_runtime error_with_accessor) optional_value =
     Inr (JObject [(''reason'', JString ''quota'')]) \<and>
   and_then (getErrorResponse sample_runtime (JObject [(''name'', JString ''Error'')])) optional_value =
     Inr (JObject [(''message'', JString ''Internal Server Error''), (''statusCode'', JNumber 500)]) \<and>
   and_then (getErrorResponse (sample_runtime\<lparr>nest := ByTruthiness\<rparr>)
       (JObject [(''name'', JString ''Error''), (''message'', JString '''')])) optional_value =
     Inr (JObject [(''statusCode'', JNumber 500), (''message'', JString ''Internal Server Error'')])"
  by code_simp

section \<open>fatal on a value without a response accessor\<close>

text \<open>
  C3. The claim is that \<open>error\<close> and \<open>fatal\<close> never throw. \<open>fatal\<close> does: it calls the
  response accessor without the check \<open>getErrorResponse\<close> makes, so for every value that
  is not \<open>null\<close> or \<open>undefined\<close> and has no callable \<open>getResponse\<close>, on a connected
  logger, it throws a \<open>TypeError\<close> and logs nothing.
\<close>

theorem fatal_throws_without_accessor:
  assumes "pino svc = Some p" and "\<not> nullish err"
    and "typeof (opt_member err ''getResponse'') \<noteq> ''function''"
  shows "fatal rt svc err msg context = Inl (TypeError ''getResponse is not a function'')"
  using assms
  by (cases "opt_member err ''getResponse''")
     (simp_all add: fatal_def pino_logger_of_def call_method_def get_member_def)

theorem fatal_throws_without_accessor_witness:
  "fatal sample_runtime sample_service generic_error (JString ''failed'') JUndefined =
     Inl (TypeError ''getResponse is not a function'') \<and>
   emitted sample_service
     (fatal sample_runtime sample_service generic_error (JString ''failed'') JUndefined) = []"
proof -
  have "\<not> nullish generic_error"
    by (simp add: generic_error_def nullish_def)
  moreover have "typeof (opt_member generic_error ''getResponse'') \<noteq> ''function''"
    by (simp add: generic_error_def)
  ultimately have
    "fatal sample_runtime sample_service generic_error (JString ''failed'') JUndefined =
       Inl (TypeError ''getResponse is not a function'')"
    using fatal_throws_without_accessor [OF sample_connected] by blast
  then show ?thesis
    by (simp add: emitted_def)
qed

section \<open>The trace id of a value that is not a string\<close>

text \<open>
  C4. The claim is that a value without a \<open>traceid\<close> of its own gets the trace id of the
  logger binding. \<open>customProps\<close> stores that id under the key \<open>traceid\<close>, and
  \<open>getTraceId\<close> reads the key \<open>tranceId\<close>, under which nothing is ever stored: after
  \<open>customProps\<close>, whatever the request's trace id, a value that is not a string resolves
  to its own \<open>traceid\<close> when that is truthy and to \<open>undefined\<close> otherwise.
\<close>

theorem getTraceId_ignores_binding:
  assumes "customProps rt svc request = Inr (props, svc1)"
    and "pino svc = Some p" and "map_of (bindings p) ''tranceId'' = None"
    and "\<not> nullish err" and "typeof err \<noteq> ''string''"
  shows "\<exists>p1. pino svc1 = Some p1 \<and>
           map_of (bindings p1) ''traceid'' =
             Some (find_Boolean [opt_member (opt_member request ''headers'') ''traceid'',
                                 opt_member request ''id'']) \<and>
           getTraceId rt svc1 err = Inr (find_Boolean [opt_member err ''traceid'', JUndefined], svc1)"
proof -
  let ?props = "[(''traceid'', find_Boolean [opt_member (opt_member request ''headers'') ''traceid'',
                                             opt_member request ''id'']),
                  (''application'', app svc),
                  (''context'', opt_member request ''context''),
                  (''path'', opt_member props ''path''),
                  (''timestamp'', JString (getDateFormat (now rt) default_format))]"
  from assms(1,2) have svc1: "svc1 = svc\<lparr>pino := Some (p\<lparr>bindings := assign (bindings p) ?props\<rparr>)\<rparr>"
    by (auto simp: customProps_def and_then_Inr_iff pino_logger_of_def get_member_def Let_def
          split: if_splits)
  have t: "map_of (assign (bindings p) ?props) ''tranceId'' = None"
    using assms(3) by (simp add: map_of_assign_other)
  have b: "map_of (assign (bindings p) ?props) ''traceid'' =
             Some (find_Boolean [opt_member (opt_member request ''headers'') ''traceid'',
                                 opt_member request ''id''])"
    by (simp add: assign_def map_of_set_prop)
  show ?thesis
    using svc1 t b assms(4,5)
    by (simp add: getTraceId_def get_member_defined pino_logger_of_def)
qed

theorem getTraceId_ignores_binding_witness:
  "\<exists>props svc1 p1.
      customProps sample_runtime sample_service sample_request = Inr (props, svc1) \<and>
      pino svc1 = Some p1 \<and>
      map_of (bindings p1) ''traceid'' = Some (JString ''abc'') \<and>
      getTraceId sample_runtime svc1 generic_error = Inr (JUndefined, svc1)"
proof -
  have "\<not> isl (customProps sample_runtime sample_service sample_request)"
    by code_simp
  then obtain props svc1 where
    run: "customProps sample_runtime sample_service sample_request = Inr (props, svc1)"
    using not_isl_Inr by fastforce
  have fresh: "map_of (bindings \<lparr>level = JString ''info'', bindings = [], calls = []\<rparr>) ''tranceId'' = None"
    by simp
  have shape: "\<not> nullish generic_error" "typeof generic_error \<noteq> ''string''"
    by (simp_all add: generic_error_def nullish_def)
  have held: "find_Boolean [opt_member (opt_member sample_request ''headers'') ''traceid'',
                          opt_member sample_request ''id''] = JString ''abc''"
    by (simp add: sample_request_def find_Boolean_def)
  have own: "find_Boolean [opt_member generic_error ''traceid'', JUndefined] = JUndefined"
    by (simp add: generic_error_def find_Boolean_def)
  from getTraceId_ignores_binding [OF run sample_connected fresh shape]
  show ?thesis
    unfolding held own using run by blast
qed

section \<open>The access-log level\<close>

text \<open>
  C7. For every HTTP exchange the access-log level is decided in this order: a response
  status of 400 or more, or an attached error, gives \<open>error\<close>; otherwise a 3xx status
  gives \<open>silent\<close>, so the exchange is not logged; every other outcome gives \<open>info\<close>.
\<close>

theorem customLogLevel_classification:
  "customLogLevel res err =
     (if statusCode res \<ge> 400 \<or> Boolean err then ''error''
      else if 300 \<le> statusCode res \<and> statusCode res < 400 then ''silent''
      else ''info'')"
  by (simp add: customLogLevel_def)

section \<open>The index name\<close>

lemma index_of_valid:
  "now rt = Valid d \<Longrightarrow>
     index rt = ''monorepo-logs-'' @ padStart 4 (show_nat (year d)) @ ''-'' @ padStart 2 (show_nat (month d))"
  by (simp add: index_def getDateFormat_def toFormat_def format_tokens.simps)

text \<open>
  C8. The index name is a function of the date alone: whatever the time of day and
  whatever the rest of the runtime, the date 2024-05-15 gives \<open>monorepo-logs-2024-05\<close>.
\<close>

theorem index_2024_05_15:
  "index (rt\<lparr>now := Valid \<lparr>year = 2024, month = 5, day = 15, hour = h, minute = mi, second = s\<rparr>\<rparr>)
     = ''monorepo-logs-2024-05''"
  by (simp add: index_def getDateFormat_def toFormat_def format_tokens.simps show_nat.simps
      padStart_def digit_char_def)

section \<open>The health endpoint on failure\<close>

text \<open>
  C9. When the health service fails with an application error of message \<open>Error\<close> and no
  declared status, \<open>GET /health\<close> responds with status 500 and the JSON body
  \<open>{"statusCode":500,"message":"Error"}\<close>.
\<close>

theorem getHealth_ApiException_Error:
  "getHealth (Inl \<lparr>declared_status = None, error_message = ''Error''\<rparr>) =
     \<lparr>status = 500,
      body = Json (JObject [(''statusCode'', JNumber 500), (''message'', JString ''Error'')])\<rparr>"
  by (simp add: getHealth_def getStatus_def)

end
